theory Spec2Isabelle
  imports Complex_Main
begin

section \<open>Data model\<close>

text \<open>
  The notifications context (the hook created in \<^verbatim>\<open>src/unnamed/part_000\<close>) keeps three
  pieces of React state: \<^verbatim>\<open>notifications\<close>, \<^verbatim>\<open>emergencyAlerts\<close> and \<^verbatim>\<open>loading\<close>. Its
  operations are asynchronous functions that call the database service and then update
  that state. The active identity \<^verbatim>\<open>user\<close> comes from the auth context
  (\<^verbatim>\<open>src/contexts/auth.tsx\<close>), where it is \<^verbatim>\<open>User | null\<close>.
\<close>

text \<open>
  Modelled from the spec: the declarations of \<^verbatim>\<open>User\<close>, \<^verbatim>\<open>Notification\<close>,
  \<^verbatim>\<open>NotificationStatus\<close>, \<^verbatim>\<open>NotificationType\<close> and \<^verbatim>\<open>EmergencyAlert\<close> live in
  \<^verbatim>\<open>@/types\<close>, which is not among the sources. Their fields are taken from the data
  model of the specification and from the object literals the two source files build
  (\<^verbatim>\<open>newUser\<close> in auth.tsx, \<^verbatim>\<open>newNotificationData\<close> and \<^verbatim>\<open>alertData\<close> in
  the hook file). Identifiers and timestamps are strings; a \<^verbatim>\<open>number\<close> is only stored, never
  computed with, and is taken as a real.
\<close>

datatype Role = UserRole | AdminRole

record User =
  u_id :: string
  u_email :: string
  u_fullName :: string
  u_department :: string
  u_role :: Role
  u_createdAt :: string

datatype NotificationStatus = Open | InProgress | Resolved | Closed

type_synonym NotificationType = string

record Location =
  latitude :: real
  longitude :: real
  address :: "string option"

text \<open>
  \<^verbatim>\<open>interface CreateNotificationData\<close> (the hook file, lines 14 to 24). The object built at
  lines 56 to 64 spreads it and adds the remaining fields (\<^verbatim>\<open>Omit<Notification, 'id'>\<close>),
  and line 67 adds the id: the three types are one record and two extensions of it.
\<close>

record CreateNotificationData =
  n_type :: NotificationType
  n_title :: string
  n_description :: string
  n_location :: Location
  n_photoUrl :: "string option"

record NotificationData = CreateNotificationData +
  n_status :: NotificationStatus
  n_createdBy :: string
  n_createdByName :: string
  n_createdAt :: string
  n_updatedAt :: string
  n_followedBy :: "string list"

record Notification = NotificationData +
  n_id :: string

text \<open>
  \<^verbatim>\<open>Partial<Notification>\<close>: every key is either absent (\<open>None\<close>) or carries a value.
\<close>

record NotificationPatch =
  p_id :: "string option"
  p_type :: "NotificationType option"
  p_title :: "string option"
  p_description :: "string option"
  p_location :: "Location option"
  p_photoUrl :: "string option option"
  p_status :: "NotificationStatus option"
  p_createdBy :: "string option"
  p_createdByName :: "string option"
  p_createdAt :: "string option"
  p_updatedAt :: "string option"
  p_followedBy :: "string list option"

record AlertData =
  a_title :: string
  a_message :: string
  a_createdAt :: string
  a_createdBy :: string

record EmergencyAlert = AlertData +
  a_id :: string

text \<open>
  What an operation throws. \<open>NotAuthenticated\<close> is \<^verbatim>\<open>Error('User not authenticated')\<close>
  (line 53), \<open>NotAuthorized\<close> is \<^verbatim>\<open>Error('Only admins can create emergency alerts')\<close>
  (line 153), and \<open>RemoteError\<close> is whatever a function of \<^verbatim>\<open>@/services/database\<close>
  rejects with, carried along so that a re-throw is seen to pass the same value on.
\<close>

datatype error = NotAuthenticated | NotAuthorized | RemoteError string

text \<open>The calls into \<^verbatim>\<open>@/services/database\<close>, with their arguments.\<close>

datatype remote_call =
    FetchNotificationsFromDb
  | FetchEmergencyAlertsFromDb
  | CreateNotificationInDb NotificationData
  | UpdateNotificationInDb string NotificationPatch
  | DeleteNotificationFromDb string
  | CreateEmergencyAlertInDb AlertData

text \<open>
  The state the operations act on: the three \<^verbatim>\<open>useState\<close> cells, the calls made to the
  database service so far (oldest first) and the lines written with \<^verbatim>\<open>console.error\<close>.
  The state cells hold the value React has with every queued update applied, which is
  what an updater function receives as \<^verbatim>\<open>prev\<close>.
\<close>

record world =
  notifications :: "Notification list"
  emergencyAlerts :: "EmergencyAlert list"
  loading :: bool
  sent :: "remote_call list"
  console :: "string list"

section \<open>Helpers for object spread\<close>

fun pick :: "'a option \<Rightarrow> 'a \<Rightarrow> 'a" where
  "pick None d = d"
| "pick (Some v) d = v"

definition no_fields :: NotificationPatch where
  "no_fields = \<lparr>p_id = None, p_type = None, p_title = None, p_description = None,
     p_location = None, p_photoUrl = None, p_status = None, p_createdBy = None,
     p_createdByName = None, p_createdAt = None, p_updatedAt = None, p_followedBy = None\<rparr>"

text \<open>\<^verbatim>\<open>{ ...n, ...updates }\<close>: the keys present in the patch replace those of the record.\<close>

definition spread :: "Notification \<Rightarrow> NotificationPatch \<Rightarrow> Notification" where
  "spread n p =
     \<lparr>n_type = pick (p_type p) (n_type n),
      n_title = pick (p_title p) (n_title n),
      n_description = pick (p_description p) (n_description n),
      n_location = pick (p_location p) (n_location n),
      n_photoUrl = pick (p_photoUrl p) (n_photoUrl n),
      n_status = pick (p_status p) (n_status n),
      n_createdBy = pick (p_createdBy p) (n_createdBy n),
      n_createdByName = pick (p_createdByName p) (n_createdByName n),
      n_createdAt = pick (p_createdAt p) (n_createdAt n),
      n_updatedAt = pick (p_updatedAt p) (n_updatedAt n),
      n_followedBy = pick (p_followedBy p) (n_followedBy n),
      n_id = pick (p_id p) (n_id n)\<rparr>"

section \<open>Operations\<close>

text \<open>
  An \<^verbatim>\<open>async\<close> function runs synchronously up to its first \<^verbatim>\<open>await\<close> and continues when
  the awaited promise settles. Each operation that awaits the database is therefore two
  functions: \<open>_issue\<close>, the part before the \<^verbatim>\<open>await\<close>, which records the call it makes
  in \<open>sent\<close>, and \<open>_settle\<close>, the part after it, which takes the reply (\<open>Inl\<close> when the
  promise was rejected). The operation itself is their composition, for a run that no
  other operation interleaves with. Clock readings (\<^verbatim>\<open>new Date().toISOString()\<close>) are
  parameters.
\<close>

subsection \<open>refreshNotifications (lines 32 to 46)\<close>

definition refreshNotifications_issue :: "world \<Rightarrow> world" where
  "refreshNotifications_issue w =
     w\<lparr>loading := True,
       sent := sent w @ [FetchNotificationsFromDb, FetchEmergencyAlertsFromDb]\<rparr>"

definition refreshNotifications_settle ::
  "error + Notification list \<Rightarrow> error + EmergencyAlert list \<Rightarrow> world \<Rightarrow> world" where
  "refreshNotifications_settle rn ra w =
     (case rn of
        Inl e \<Rightarrow>
          w\<lparr>console := console w @ [''Failed to fetch notifications or alerts''],
            loading := False\<rparr>
      | Inr notificationsData \<Rightarrow>
          (case ra of
             Inl e \<Rightarrow>
               w\<lparr>console := console w @ [''Failed to fetch notifications or alerts''],
                 loading := False\<rparr>
           | Inr emergencyAlertsData \<Rightarrow>
               w\<lparr>notifications := notificationsData,
                 emergencyAlerts := emergencyAlertsData,
                 loading := False\<rparr>))"

definition refreshNotifications ::
  "error + Notification list \<Rightarrow> error + EmergencyAlert list \<Rightarrow> world \<Rightarrow> world" where
  "refreshNotifications rn ra w =
     refreshNotifications_settle rn ra (refreshNotifications_issue w)"

subsection \<open>createNotification (lines 52 to 71)\<close>

definition createNotification_issue ::
  "User option \<Rightarrow> string \<Rightarrow> CreateNotificationData \<Rightarrow> world
     \<Rightarrow> (error + NotificationData) \<times> world" where
  "createNotification_issue user now data w =
     (case user of
        None \<Rightarrow> (Inl NotAuthenticated, w)
      | Some u \<Rightarrow>
          let timestamp = now;
              newNotificationData =
                CreateNotificationData.extend data
                  (NotificationData.fields Open (u_id u) (u_fullName u)
                     timestamp timestamp [u_id u])
          in (Inr newNotificationData,
              w\<lparr>sent := sent w @ [CreateNotificationInDb newNotificationData]\<rparr>))"

definition createNotification_settle ::
  "NotificationData \<Rightarrow> error + string \<Rightarrow> world \<Rightarrow> (error + Notification) \<times> world" where
  "createNotification_settle newNotificationData reply w =
     (case reply of
        Inl e \<Rightarrow> (Inl e, w)
      | Inr i \<Rightarrow>
          let newNotification = NotificationData.extend newNotificationData (Notification.fields i)
          in (Inr newNotification, w\<lparr>notifications := newNotification # notifications w\<rparr>))"

definition createNotification ::
  "User option \<Rightarrow> string \<Rightarrow> CreateNotificationData \<Rightarrow> error + string \<Rightarrow> world
     \<Rightarrow> (error + Notification) \<times> world" where
  "createNotification user now data reply w =
     (case createNotification_issue user now data w of
        (Inl e, w') \<Rightarrow> (Inl e, w')
      | (Inr newNotificationData, w') \<Rightarrow> createNotification_settle newNotificationData reply w')"

subsection \<open>updateNotificationStatus (lines 73 to 87)\<close>

text \<open>
  The clock is read twice: at line 75 for the remote payload (\<open>now\<close>) and at line 79,
  inside the updater, when the local update is computed (\<open>later\<close>).
\<close>

definition updateNotificationStatus_issue ::
  "string \<Rightarrow> NotificationStatus \<Rightarrow> string \<Rightarrow> world \<Rightarrow> world" where
  "updateNotificationStatus_issue ident status now w =
     w\<lparr>sent := sent w @
       [UpdateNotificationInDb ident (no_fields\<lparr>p_status := Some status, p_updatedAt := Some now\<rparr>)]\<rparr>"

definition updateNotificationStatus_settle ::
  "string \<Rightarrow> NotificationStatus \<Rightarrow> string \<Rightarrow> error + unit \<Rightarrow> world
     \<Rightarrow> (error + unit) \<times> world" where
  "updateNotificationStatus_settle ident status later reply w =
     (case reply of
        Inl e \<Rightarrow> (Inl e, w\<lparr>console := console w @ [''Failed to update status'']\<rparr>)
      | Inr _ \<Rightarrow>
          (Inr (),
           w\<lparr>notifications :=
               map (\<lambda>n. if n_id n = ident then n\<lparr>n_status := status, n_updatedAt := later\<rparr> else n)
                 (notifications w)\<rparr>))"

definition updateNotificationStatus ::
  "string \<Rightarrow> NotificationStatus \<Rightarrow> string \<Rightarrow> string \<Rightarrow> error + unit \<Rightarrow> world
     \<Rightarrow> (error + unit) \<times> world" where
  "updateNotificationStatus ident status now later reply w =
     updateNotificationStatus_settle ident status later reply
       (updateNotificationStatus_issue ident status now w)"

subsection \<open>updateNotification (lines 89 to 104)\<close>

definition updateNotification_issue ::
  "string \<Rightarrow> NotificationPatch \<Rightarrow> string \<Rightarrow> world \<Rightarrow> world" where
  "updateNotification_issue ident updates now w =
     (let timestamp = now
      in w\<lparr>sent := sent w @
           [UpdateNotificationInDb ident (updates\<lparr>p_updatedAt := Some timestamp\<rparr>)]\<rparr>)"

definition updateNotification_settle ::
  "string \<Rightarrow> NotificationPatch \<Rightarrow> string \<Rightarrow> error + unit \<Rightarrow> world
     \<Rightarrow> (error + unit) \<times> world" where
  "updateNotification_settle ident updates timestamp reply w =
     (case reply of
        Inl e \<Rightarrow> (Inl e, w\<lparr>console := console w @ [''Failed to update notification'']\<rparr>)
      | Inr _ \<Rightarrow>
          (Inr (),
           w\<lparr>notifications :=
               map (\<lambda>n. if n_id n = ident then (spread n updates)\<lparr>n_updatedAt := timestamp\<rparr> else n)
                 (notifications w)\<rparr>))"

definition updateNotification ::
  "string \<Rightarrow> NotificationPatch \<Rightarrow> string \<Rightarrow> error + unit \<Rightarrow> world
     \<Rightarrow> (error + unit) \<times> world" where
  "updateNotification ident updates now reply w =
     updateNotification_settle ident updates now reply
       (updateNotification_issue ident updates now w)"

subsection \<open>deleteNotification (lines 106 to 114)\<close>

definition deleteNotification_issue :: "string \<Rightarrow> world \<Rightarrow> world" where
  "deleteNotification_issue ident w = w\<lparr>sent := sent w @ [DeleteNotificationFromDb ident]\<rparr>"

definition deleteNotification_settle ::
  "string \<Rightarrow> error + unit \<Rightarrow> world \<Rightarrow> (error + unit) \<times> world" where
  "deleteNotification_settle ident reply w =
     (case reply of
        Inl e \<Rightarrow> (Inl e, w\<lparr>console := console w @ [''Failed to delete notification'']\<rparr>)
      | Inr _ \<Rightarrow>
          (Inr (), w\<lparr>notifications := filter (\<lambda>n. n_id n \<noteq> ident) (notifications w)\<rparr>))"

definition deleteNotification ::
  "string \<Rightarrow> error + unit \<Rightarrow> world \<Rightarrow> (error + unit) \<times> world" where
  "deleteNotification ident reply w =
     deleteNotification_settle ident reply (deleteNotification_issue ident w)"

subsection \<open>toggleFollow (lines 116 to 149)\<close>

text \<open>
  The updater of lines 121 to 132 maps over \<^verbatim>\<open>prev\<close> and, as a side effect, assigns the
  local variable \<^verbatim>\<open>isFollowing\<close> at every record whose id matches. \<open>toggle_updater\<close>
  threads that variable through the map: it returns its last value with the new list.
\<close>

fun toggle_updater ::
  "string \<Rightarrow> string \<Rightarrow> bool \<Rightarrow> Notification list \<Rightarrow> bool \<times> Notification list" where
  "toggle_updater userId notificationId isFollowing [] = (isFollowing, [])"
| "toggle_updater userId notificationId isFollowing (n # ns) =
     (if n_id n \<noteq> notificationId then
        (case toggle_updater userId notificationId isFollowing ns of
           (f, ms) \<Rightarrow> (f, n # ms))
      else
        (let following = (userId \<in> set (n_followedBy n))
         in case toggle_updater userId notificationId following ns of
              (f, ms) \<Rightarrow>
                (f, n\<lparr>n_followedBy :=
                        (if following then filter (\<lambda>i. i \<noteq> userId) (n_followedBy n)
                         else n_followedBy n @ [userId])\<rparr> # ms)))"

text \<open>
  \<open>toggleFollow_issue\<close> is everything up to the \<^verbatim>\<open>await\<close> of line 143. Two things the
  callback reads are not the state cell itself and are parameters:
  \<^item> \<open>snapshot\<close> is the array \<^verbatim>\<open>notifications\<close> the callback closed over (it is listed in
    the dependency array at line 149): the value of the state at the render that created
    the callback. Line 135 searches this array, not \<^verbatim>\<open>prev\<close>.
  \<^item> \<open>updaterRan\<close> says whether React has already run the updater when line 135 is reached. React
    runs an updater during the \<^verbatim>\<open>setNotifications\<close> call when the component has no update
    pending, and at the next render otherwise; in the second case \<^verbatim>\<open>isFollowing\<close> still has
    its initial value \<^verbatim>\<open>false\<close> at line 139.
  The first component of the result says whether a remote call was issued, that is whether
  the function is suspended at line 143 (otherwise it has returned).
\<close>

definition toggleFollow_issue ::
  "User option \<Rightarrow> Notification list \<Rightarrow> bool \<Rightarrow> string \<Rightarrow> world \<Rightarrow> bool \<times> world" where
  "toggleFollow_issue user snapshot updaterRan notificationId w =
     (case user of
        None \<Rightarrow> (False, w)
      | Some u \<Rightarrow>
          (case toggle_updater (u_id u) notificationId False (notifications w) of
             (assigned, updated) \<Rightarrow>
               let w1 = w\<lparr>notifications := updated\<rparr>;
                   isFollowing = (if updaterRan then assigned else False)
               in (case find (\<lambda>n. n_id n = notificationId) snapshot of
                     None \<Rightarrow> (False, w1)
                   | Some notification \<Rightarrow>
                       let currentFollowers = n_followedBy notification;
                           newFollowers =
                             (if isFollowing then filter (\<lambda>i. i \<noteq> u_id u) currentFollowers
                              else currentFollowers @ [u_id u])
                       in (True,
                           w1\<lparr>sent := sent w1 @
                             [UpdateNotificationInDb notificationId
                                (no_fields\<lparr>p_followedBy := Some newFollowers\<rparr>)]\<rparr>))))"

text \<open>
  On a rejected write the handler logs and calls \<^verbatim>\<open>refreshNotifications()\<close> without awaiting
  it (line 147): the refresh is started, and settles later on its own.
\<close>

definition toggleFollow_settle :: "error + unit \<Rightarrow> world \<Rightarrow> world" where
  "toggleFollow_settle reply w =
     (case reply of
        Inr _ \<Rightarrow> w
      | Inl e \<Rightarrow> refreshNotifications_issue (w\<lparr>console := console w @ [''Failed to toggle follow'']\<rparr>))"

definition toggleFollow ::
  "User option \<Rightarrow> Notification list \<Rightarrow> bool \<Rightarrow> string \<Rightarrow> error + unit \<Rightarrow> world \<Rightarrow> world" where
  "toggleFollow user snapshot updaterRan notificationId reply w =
     (case toggleFollow_issue user snapshot updaterRan notificationId w of
        (False, w') \<Rightarrow> w'
      | (True, w') \<Rightarrow> toggleFollow_settle reply w')"

subsection \<open>createEmergencyAlert (lines 151 to 173)\<close>

definition createEmergencyAlert_issue ::
  "User option \<Rightarrow> string \<Rightarrow> string \<Rightarrow> string \<Rightarrow> world \<Rightarrow> (error + AlertData) \<times> world" where
  "createEmergencyAlert_issue user now title message w =
     (case user of
        None \<Rightarrow> (Inl NotAuthorized, w)
      | Some u \<Rightarrow>
          if u_role u \<noteq> AdminRole then (Inl NotAuthorized, w)
          else
            let timestamp = now;
                alertData = \<lparr>a_title = title, a_message = message,
                             a_createdAt = timestamp, a_createdBy = u_id u\<rparr>
            in (Inr alertData, w\<lparr>sent := sent w @ [CreateEmergencyAlertInDb alertData]\<rparr>))"

definition createEmergencyAlert_settle ::
  "AlertData \<Rightarrow> error + string \<Rightarrow> world \<Rightarrow> (error + EmergencyAlert) \<times> world" where
  "createEmergencyAlert_settle alertData reply w =
     (case reply of
        Inl e \<Rightarrow> (Inl e, w\<lparr>console := console w @ [''Failed to create emergency alert'']\<rparr>)
      | Inr i \<Rightarrow>
          let newAlert = AlertData.extend alertData (EmergencyAlert.fields i)
          in (Inr newAlert, w\<lparr>emergencyAlerts := newAlert # emergencyAlerts w\<rparr>))"

definition createEmergencyAlert ::
  "User option \<Rightarrow> string \<Rightarrow> string \<Rightarrow> string \<Rightarrow> error + string \<Rightarrow> world
     \<Rightarrow> (error + EmergencyAlert) \<times> world" where
  "createEmergencyAlert user now title message reply w =
     (case createEmergencyAlert_issue user now title message w of
        (Inl e, w') \<Rightarrow> (Inl e, w')
      | (Inr alertData, w') \<Rightarrow> createEmergencyAlert_settle alertData reply w')"

subsection \<open>getNotificationById (lines 175 to 177)\<close>

text \<open>The lookup reads the rendered array; \<^verbatim>\<open>undefined\<close> is \<open>None\<close>.\<close>

definition getNotificationById :: "Notification list \<Rightarrow> string \<Rightarrow> Notification option" where
  "getNotificationById rendered ident = find (\<lambda>n. n_id n = ident) rendered"

section \<open>Auxiliary notions for the statements\<close>

text \<open>
  What the updater of lines 121 to 132 makes of a single record (the body of its
  \<^verbatim>\<open>map\<close> callback, without the assignment to \<^verbatim>\<open>isFollowing\<close>).
\<close>

definition toggled :: "string \<Rightarrow> string \<Rightarrow> Notification \<Rightarrow> Notification" where
  "toggled userId notificationId n =
     (if n_id n \<noteq> notificationId then n
      else n\<lparr>n_followedBy :=
             (if userId \<in> set (n_followedBy n)
              then filter (\<lambda>i. i \<noteq> userId) (n_followedBy n)
              else n_followedBy n @ [userId])\<rparr>)"

text \<open>The calls that write to the remote store, as opposed to the two bulk fetches.\<close>

fun is_write :: "remote_call \<Rightarrow> bool" where
  "is_write FetchNotificationsFromDb = False"
| "is_write FetchEmergencyAlertsFromDb = False"
| "is_write (CreateNotificationInDb d) = True"
| "is_write (UpdateNotificationInDb i p) = True"
| "is_write (DeleteNotificationFromDb i) = True"
| "is_write (CreateEmergencyAlertInDb d) = True"

subsection \<open>Sample data\<close>

text \<open>
  The scenario of the specification: identity U1 has reported the incident Pothole,
  which U1 follows; U2 is a second identity with role \<^verbatim>\<open>user\<close>, U9 an administrator.
\<close>

definition campus :: Location where
  "campus = \<lparr>latitude = 0, longitude = 0, address = None\<rparr>"

definition pothole :: Notification where
  "pothole = \<lparr>n_type = ''hazard'', n_title = ''Pothole'', n_description = ''Road by the gate'',
     n_location = campus, n_photoUrl = None, n_status = Open, n_createdBy = ''U1'',
     n_createdByName = ''Ann'', n_createdAt = ''T0'', n_updatedAt = ''T0'',
     n_followedBy = [''U1''], n_id = ''N1''\<rparr>"

definition leak :: Notification where
  "leak = \<lparr>n_type = ''maintenance'', n_title = ''Leak'', n_description = ''Library roof'',
     n_location = campus, n_photoUrl = Some ''leak.jpg'', n_status = InProgress,
     n_createdBy = ''U2'', n_createdByName = ''Bo'', n_createdAt = ''T0'', n_updatedAt = ''T0'',
     n_followedBy = [''U2''], n_id = ''N2''\<rparr>"

definition user2 :: User where
  "user2 = \<lparr>u_id = ''U2'', u_email = ''bo@campus'', u_fullName = ''Bo'',
     u_department = ''Physics'', u_role = UserRole, u_createdAt = ''T0''\<rparr>"

definition admin9 :: User where
  "admin9 = \<lparr>u_id = ''U9'', u_email = ''kim@campus'', u_fullName = ''Kim'',
     u_department = ''Safety'', u_role = AdminRole, u_createdAt = ''T0''\<rparr>"

definition cache0 :: world where
  "cache0 = \<lparr>notifications = [pothole], emergencyAlerts = [], loading = False,
     sent = [], console = []\<rparr>"

definition cache1 :: world where
  "cache1 = cache0\<lparr>notifications := [pothole, leak]\<rparr>"

section \<open>Basic facts\<close>

lemmas mutation_defs =
  deleteNotification_def deleteNotification_issue_def deleteNotification_settle_def
  updateNotificationStatus_def updateNotificationStatus_issue_def
  updateNotificationStatus_settle_def
  updateNotification_def updateNotification_issue_def updateNotification_settle_def

lemmas create_defs =
  createNotification_def createNotification_issue_def createNotification_settle_def
  CreateNotificationData.defs NotificationData.defs Notification.defs

lemmas alert_defs =
  createEmergencyAlert_def createEmergencyAlert_issue_def createEmergencyAlert_settle_def
  AlertData.defs EmergencyAlert.defs

lemmas refresh_defs =
  refreshNotifications_def refreshNotifications_issue_def refreshNotifications_settle_def

lemmas toggle_defs =
  toggleFollow_def toggleFollow_issue_def toggleFollow_settle_def
  refreshNotifications_issue_def

lemma find_filter_neq: "find (\<lambda>n. f n = k) (filter (\<lambda>n. f n \<noteq> k) xs) = None"
  by (induction xs) auto

lemma find_absent: "k \<notin> f ` set xs \<Longrightarrow> find (\<lambda>n. f n = k) xs = None"
  by (induction xs) auto

lemma find_present: "k \<in> f ` set xs \<Longrightarrow> \<exists>n. find (\<lambda>n. f n = k) xs = Some n \<and> f n = k"
  by (induction xs) auto

subsection \<open>The updater of toggleFollow\<close>

lemma snd_toggle_updater:
  "snd (toggle_updater userId notificationId b ns) = map (toggled userId notificationId) ns"
proof (induction ns arbitrary: b)
  case Nil
  then show ?case by simp
next
  case (Cons n ns)
  show ?case
  proof (cases "n_id n \<noteq> notificationId")
    case True
    obtain f ms where run: "toggle_updater userId notificationId b ns = (f, ms)"
      by (cases "toggle_updater userId notificationId b ns")
    with Cons [of b] have "ms = map (toggled userId notificationId) ns" by simp
    with True run show ?thesis by (simp add: toggled_def)
  next
    case False
    obtain f ms where
      run: "toggle_updater userId notificationId (userId \<in> set (n_followedBy n)) ns = (f, ms)"
      by (cases "toggle_updater userId notificationId (userId \<in> set (n_followedBy n)) ns")
    with Cons [of "userId \<in> set (n_followedBy n)"]
    have "ms = map (toggled userId notificationId) ns" by simp
    with False run show ?thesis by (simp add: toggled_def Let_def)
  qed
qed

lemma toggle_updater_absent:
  "notificationId \<notin> n_id ` set ns \<Longrightarrow> toggle_updater userId notificationId b ns = (b, ns)"
  by (induction ns arbitrary: b) auto

text \<open>
  With unique ids the flag the updater leaves in \<^verbatim>\<open>isFollowing\<close> is the membership of the
  user in the follower list of the record that \<^verbatim>\<open>find\<close> returns.
\<close>

lemma fst_toggle_updater:
  "distinct (map n_id ns) \<Longrightarrow> find (\<lambda>n. n_id n = notificationId) ns = Some n \<Longrightarrow>
   fst (toggle_updater userId notificationId b ns) = (userId \<in> set (n_followedBy n))"
proof (induction ns arbitrary: b)
  case Nil
  then show ?case by simp
next
  case (Cons m ms)
  show ?case
  proof (cases "n_id m = notificationId")
    case True
    with Cons.prems have "notificationId \<notin> n_id ` set ms" and "n = m" by auto
    with True show ?thesis by (simp add: toggle_updater_absent Let_def)
  next
    case False
    with Cons.prems have "distinct (map n_id ms)"
      and "find (\<lambda>n. n_id n = notificationId) ms = Some n" by auto
    from Cons.IH [OF this, of b] False show ?thesis by (auto split: prod.splits)
  qed
qed

lemma toggled_id: "n_id (toggled userId notificationId n) = n_id n"
  by (simp add: toggled_def)

lemma toggled_twice_set:
  "set (n_followedBy (toggled userId notificationId (toggled userId notificationId n))) =
   set (n_followedBy n)"
  by (auto simp: toggled_def)

lemma toggled_twice_frame:
  "(toggled userId notificationId (toggled userId notificationId n))
     \<lparr>n_followedBy := n_followedBy n\<rparr> = n"
  by (simp add: toggled_def)

subsection \<open>The local and the remote effect of toggleFollow\<close>

lemma notifications_toggleFollow_issue:
  "notifications (snd (toggleFollow_issue user snapshot updaterRan notificationId w)) =
     (case user of None \<Rightarrow> notifications w
      | Some u \<Rightarrow> map (toggled (u_id u) notificationId) (notifications w))"
proof (cases user)
  case None
  then show ?thesis by (simp add: toggleFollow_issue_def)
next
  case (Some u)
  obtain assigned updated where
    run: "toggle_updater (u_id u) notificationId False (notifications w) = (assigned, updated)"
    by (cases "toggle_updater (u_id u) notificationId False (notifications w)")
  with snd_toggle_updater [of "u_id u" notificationId False "notifications w"]
  have "updated = map (toggled (u_id u) notificationId) (notifications w)" by simp
  with Some run show ?thesis
    by (simp add: toggleFollow_issue_def Let_def split: option.splits)
qed

lemma notifications_toggleFollow_settled:
  "notifications (toggleFollow user snapshot updaterRan notificationId reply w) =
   notifications (snd (toggleFollow_issue user snapshot updaterRan notificationId w))"
  by (simp add: toggleFollow_def toggleFollow_settle_def refreshNotifications_issue_def
      split: prod.splits bool.splits sum.splits)

lemma notifications_toggleFollow:
  "notifications (toggleFollow user snapshot updaterRan notificationId reply w) =
     (case user of None \<Rightarrow> notifications w
      | Some u \<Rightarrow> map (toggled (u_id u) notificationId) (notifications w))"
  by (simp add: notifications_toggleFollow_settled notifications_toggleFollow_issue)

lemma toggleFollow_issue_found:
  assumes found: "find (\<lambda>n. n_id n = notificationId) snapshot = Some n"
  shows "toggleFollow_issue (Some u) snapshot updaterRan notificationId w =
           (True, w\<lparr>notifications := map (toggled (u_id u) notificationId) (notifications w),
                    sent := sent w @ [UpdateNotificationInDb notificationId
                      (no_fields\<lparr>p_followedBy := Some
                         (if updaterRan \<and>
                             fst (toggle_updater (u_id u) notificationId False (notifications w))
                          then filter (\<lambda>i. i \<noteq> u_id u) (n_followedBy n)
                          else n_followedBy n @ [u_id u])\<rparr>)]\<rparr>)"
proof -
  obtain assigned updated where
    run: "toggle_updater (u_id u) notificationId False (notifications w) = (assigned, updated)"
    by (cases "toggle_updater (u_id u) notificationId False (notifications w)")
  with snd_toggle_updater [of "u_id u" notificationId False "notifications w"]
  have "updated = map (toggled (u_id u) notificationId) (notifications w)" by simp
  with found run show ?thesis
    by (simp add: toggleFollow_issue_def Let_def)
qed

text \<open>
  When the callback's snapshot is the current state, ids are unique and the updater has
  run, the set sent to the remote store is the one applied locally.
\<close>

lemma toggleFollow_issue_current:
  assumes "distinct (map n_id (notifications w))"
    and "find (\<lambda>n. n_id n = notificationId) (notifications w) = Some n"
  shows "toggleFollow_issue (Some u) (notifications w) True notificationId w =
           (True, w\<lparr>notifications := map (toggled (u_id u) notificationId) (notifications w),
                    sent := sent w @ [UpdateNotificationInDb notificationId
                      (no_fields\<lparr>p_followedBy :=
                         Some (n_followedBy (toggled (u_id u) notificationId n))\<rparr>)]\<rparr>)"
proof -
  from assms(2) have "n_id n = notificationId" by (auto dest: find_Some_iff [THEN iffD1])
  with toggleFollow_issue_found [OF assms(2), of u True w]
    fst_toggle_updater [OF assms, of "u_id u" False]
  show ?thesis by (simp add: toggled_def)
qed

lemma writes_toggleFollow_present:
  assumes "notificationId \<in> n_id ` set snapshot"
  shows "\<exists>fs. filter is_write
            (sent (toggleFollow (Some u) snapshot updaterRan notificationId reply w)) =
           filter is_write (sent w) @
             [UpdateNotificationInDb notificationId (no_fields\<lparr>p_followedBy := Some fs\<rparr>)]"
proof -
  from find_present [OF assms] obtain n where
    "find (\<lambda>n. n_id n = notificationId) snapshot = Some n" by blast
  from toggleFollow_issue_found [OF this, of u updaterRan w] obtain fs where
    "toggleFollow_issue (Some u) snapshot updaterRan notificationId w =
           (True, w\<lparr>notifications := map (toggled (u_id u) notificationId) (notifications w),
                    sent := sent w @ [UpdateNotificationInDb notificationId
                                        (no_fields\<lparr>p_followedBy := Some fs\<rparr>)]\<rparr>)" by blast
  then have "filter is_write
            (sent (toggleFollow (Some u) snapshot updaterRan notificationId reply w)) =
           filter is_write (sent w) @
             [UpdateNotificationInDb notificationId (no_fields\<lparr>p_followedBy := Some fs\<rparr>)]"
    by (cases reply)
      (simp_all add: toggleFollow_def toggleFollow_settle_def refreshNotifications_issue_def)
  then show ?thesis by blast
qed

section \<open>Deleting and updating: the remote write comes first\<close>

text \<open>
  C1, as stated, fails: after \<^verbatim>\<open>deleteNotification\<close> with a rejected remote delete the
  record is still in the local sequence. Line 108 awaits the remote delete, and the
  \<^verbatim>\<open>filter\<close> of line 109 is only reached when it resolves. Here the incident N1 is
  present, the delete is rejected, the rejection is re-thrown, and the lookup still
  finds the record.
\<close>

theorem deleteNotification_failure_counterexample:
  "getNotificationById (notifications cache0) ''N1'' = Some pothole \<and>
   fst (deleteNotification ''N1'' (Inl (RemoteError ''offline'')) cache0) =
     Inl (RemoteError ''offline'') \<and>
   getNotificationById
     (notifications (snd (deleteNotification ''N1'' (Inl (RemoteError ''offline'')) cache0)))
     ''N1'' \<noteq> None"
  by (simp add: mutation_defs getNotificationById_def cache0_def pothole_def)

text \<open>
  C1 (amended): the removal is not optimistic. For every incident id, \<^verbatim>\<open>delete(id)\<close>
  issues the remote delete and leaves the local sequence untouched while that call is
  pending, so \<^verbatim>\<open>getById(id)\<close> still returns what it returned before. If the remote delete
  fails, the failure is logged and re-thrown and the local sequence is exactly what it
  was (a record that was present is still present). The record is removed only once the
  remote delete has succeeded, and then \<^verbatim>\<open>getById(id)\<close> returns none.
\<close>

theorem deleteNotification_failure_keeps_record:
  "notifications (deleteNotification_issue ident w) = notifications w \<and>
   sent (deleteNotification_issue ident w) = sent w @ [DeleteNotificationFromDb ident] \<and>
   getNotificationById (notifications (deleteNotification_issue ident w)) ident =
     getNotificationById (notifications w) ident \<and>
   console (snd (deleteNotification ident (Inl e) w)) =
     console w @ [''Failed to delete notification''] \<and>
   notifications (snd (deleteNotification ident (Inr ()) w)) =
     filter (\<lambda>n. n_id n \<noteq> ident) (notifications w) \<and>
   fst (deleteNotification ident (Inl e) w) = Inl e \<and>
   notifications (snd (deleteNotification ident (Inl e) w)) = notifications w \<and>
   getNotificationById (notifications (snd (deleteNotification ident (Inl e) w))) ident =
     getNotificationById (notifications w) ident \<and>
   getNotificationById (notifications (snd (deleteNotification ident (Inr ()) w))) ident = None"
  by (simp add: mutation_defs getNotificationById_def find_filter_neq)

text \<open>
  C2, as stated, fails: \<^verbatim>\<open>updateNotificationStatus\<close> does not touch the local sequence
  before its remote write has resolved. With the incident N1 open, a status change to
  resolved leaves the local status open while the write is pending, and leaves it open
  when the write is rejected (the rejection is re-thrown).
\<close>

theorem updateNotificationStatus_failure_counterexample:
  "map n_status (notifications cache0) = [Open] \<and>
   map n_status (notifications (updateNotificationStatus_issue ''N1'' Resolved ''T1'' cache0)) =
     [Open] \<and>
   fst (updateNotificationStatus ''N1'' Resolved ''T1'' ''T2''
          (Inl (RemoteError ''offline'')) cache0) = Inl (RemoteError ''offline'') \<and>
   map n_status (notifications (snd
      (updateNotificationStatus ''N1'' Resolved ''T1'' ''T2''
         (Inl (RemoteError ''offline'')) cache0))) = [Open]"
  by (simp add: mutation_defs cache0_def pothole_def)

text \<open>
  C2 (amended): for every invocation of \<^verbatim>\<open>updateStatus\<close>, \<^verbatim>\<open>updateFields\<close> or \<^verbatim>\<open>delete\<close>,
  the remote write is issued first and the local sequence is unchanged while it is
  pending; when the remote write fails the operation logs the failure (one line on the
  console), re-throws it, and the local sequence is left as it was; only when the remote
  write succeeds is the computed new value applied to the local sequence (the status and
  timestamp set, the patch spread over the record, the record filtered out).
\<close>

theorem mutations_apply_after_remote_success:
  "notifications (updateNotificationStatus_issue ident status now w) = notifications w \<and>
   notifications (updateNotification_issue ident updates now w) = notifications w \<and>
   notifications (deleteNotification_issue ident w) = notifications w \<and>
   sent (updateNotificationStatus_issue ident status now w) =
     sent w @ [UpdateNotificationInDb ident
                 (no_fields\<lparr>p_status := Some status, p_updatedAt := Some now\<rparr>)] \<and>
   sent (updateNotification_issue ident updates now w) =
     sent w @ [UpdateNotificationInDb ident (updates\<lparr>p_updatedAt := Some now\<rparr>)] \<and>
   sent (deleteNotification_issue ident w) = sent w @ [DeleteNotificationFromDb ident] \<and>
   fst (updateNotificationStatus ident status now later (Inl e) w) = Inl e \<and>
   fst (updateNotification ident updates now (Inl e) w) = Inl e \<and>
   fst (deleteNotification ident (Inl e) w) = Inl e \<and>
   console (snd (updateNotificationStatus ident status now later (Inl e) w)) =
     console w @ [''Failed to update status''] \<and>
   console (snd (updateNotification ident updates now (Inl e) w)) =
     console w @ [''Failed to update notification''] \<and>
   console (snd (deleteNotification ident (Inl e) w)) =
     console w @ [''Failed to delete notification''] \<and>
   notifications (snd (updateNotificationStatus ident status now later (Inl e) w)) =
     notifications w \<and>
   notifications (snd (updateNotification ident updates now (Inl e) w)) = notifications w \<and>
   notifications (snd (deleteNotification ident (Inl e) w)) = notifications w \<and>
   notifications (snd (updateNotificationStatus ident status now later (Inr ()) w)) =
     map (\<lambda>n. if n_id n = ident then n\<lparr>n_status := status, n_updatedAt := later\<rparr> else n)
       (notifications w) \<and>
   notifications (snd (updateNotification ident updates now (Inr ()) w)) =
     map (\<lambda>n. if n_id n = ident then (spread n updates)\<lparr>n_updatedAt := now\<rparr> else n)
       (notifications w) \<and>
   notifications (snd (deleteNotification ident (Inr ()) w)) =
     filter (\<lambda>n. n_id n \<noteq> ident) (notifications w)"
  by (simp add: mutation_defs Let_def)

section \<open>Creating\<close>

text \<open>
  C4: without an active identity \<^verbatim>\<open>createNotification\<close> fails with NotAuthenticated and
  nothing changes (no remote call either). With an identity the remote create is issued
  first, carrying status open, the creator's id and name, both timestamps equal to the
  issue time and the creator as only follower, and the local sequence is untouched while
  it is pending and when it fails; when it succeeds the record with the remote id is
  returned and stands at index 0 of the local sequence, before the old records.
\<close>

theorem createNotification_behaviour:
  "createNotification None now data reply w = (Inl NotAuthenticated, w) \<and>
   notifications (snd (createNotification_issue (Some u) now data w)) = notifications w \<and>
   sent (snd (createNotification_issue (Some u) now data w)) =
     sent w @ [CreateNotificationInDb
       \<lparr>n_type = n_type data, n_title = n_title data, n_description = n_description data,
        n_location = n_location data, n_photoUrl = n_photoUrl data, n_status = Open,
        n_createdBy = u_id u, n_createdByName = u_fullName u, n_createdAt = now,
        n_updatedAt = now, n_followedBy = [u_id u]\<rparr>] \<and>
   fst (createNotification (Some u) now data (Inl e) w) = Inl e \<and>
   notifications (snd (createNotification (Some u) now data (Inl e) w)) = notifications w \<and>
   fst (createNotification (Some u) now data (Inr i) w) =
     Inr \<lparr>n_type = n_type data, n_title = n_title data, n_description = n_description data,
        n_location = n_location data, n_photoUrl = n_photoUrl data, n_status = Open,
        n_createdBy = u_id u, n_createdByName = u_fullName u, n_createdAt = now,
        n_updatedAt = now, n_followedBy = [u_id u], n_id = i\<rparr> \<and>
   notifications (snd (createNotification (Some u) now data (Inr i) w)) =
     \<lparr>n_type = n_type data, n_title = n_title data, n_description = n_description data,
      n_location = n_location data, n_photoUrl = n_photoUrl data, n_status = Open,
      n_createdBy = u_id u, n_createdByName = u_fullName u, n_createdAt = now,
      n_updatedAt = now, n_followedBy = [u_id u], n_id = i\<rparr> # notifications w"
  by (cases data) (simp add: create_defs Let_def)

text \<open>
  C5: \<^verbatim>\<open>createEmergencyAlert\<close> fails with NotAuthorized when no identity is active and
  when the active identity is not an administrator; the check is made in the synchronous
  part, before any remote call, so the state (the alert sequence and the list of remote
  calls included) is unchanged. For an administrator the remote create is issued, and
  when it succeeds the alert with the remote id is returned and prepended to the alert
  sequence; when it fails the failure is re-thrown and the alert sequence is unchanged.
\<close>

theorem createEmergencyAlert_gate:
  "createEmergencyAlert_issue None now title message w = (Inl NotAuthorized, w) \<and>
   createEmergencyAlert None now title message reply w = (Inl NotAuthorized, w) \<and>
   (u_role u \<noteq> AdminRole \<longrightarrow>
      createEmergencyAlert_issue (Some u) now title message w = (Inl NotAuthorized, w) \<and>
      createEmergencyAlert (Some u) now title message reply w = (Inl NotAuthorized, w)) \<and>
   (u_role u = AdminRole \<longrightarrow>
      sent (snd (createEmergencyAlert_issue (Some u) now title message w)) =
        sent w @ [CreateEmergencyAlertInDb
          \<lparr>a_title = title, a_message = message, a_createdAt = now, a_createdBy = u_id u\<rparr>] \<and>
      fst (createEmergencyAlert (Some u) now title message (Inr i) w) =
        Inr \<lparr>a_title = title, a_message = message, a_createdAt = now, a_createdBy = u_id u,
             a_id = i\<rparr> \<and>
      emergencyAlerts (snd (createEmergencyAlert (Some u) now title message (Inr i) w)) =
        \<lparr>a_title = title, a_message = message, a_createdAt = now, a_createdBy = u_id u,
         a_id = i\<rparr> # emergencyAlerts w \<and>
      fst (createEmergencyAlert (Some u) now title message (Inl e) w) = Inl e \<and>
      emergencyAlerts (snd (createEmergencyAlert (Some u) now title message (Inl e) w)) =
        emergencyAlerts w)"
  by (simp add: alert_defs Let_def)

text \<open>
  The scenario of the specification: an identity with role \<^verbatim>\<open>user\<close> is rejected and nothing
  changes; an administrator's alert is prepended with the id the remote store assigned.
\<close>

theorem createEmergencyAlert_gate_witness:
  "u_role user2 \<noteq> AdminRole \<and>
   createEmergencyAlert (Some user2) ''T1'' ''Fire'' ''Evacuate'' (Inr ''A1'') cache0 =
     (Inl NotAuthorized, cache0) \<and>
   u_role admin9 = AdminRole \<and>
   emergencyAlerts
     (snd (createEmergencyAlert (Some admin9) ''T1'' ''Fire'' ''Evacuate'' (Inr ''A1'') cache0)) =
     [\<lparr>a_title = ''Fire'', a_message = ''Evacuate'', a_createdAt = ''T1'', a_createdBy = ''U9'',
       a_id = ''A1''\<rparr>]"
proof -
  have usr: "u_role user2 \<noteq> AdminRole" by (simp add: user2_def)
  have adm: "u_role admin9 = AdminRole" by (simp add: admin9_def)
  from createEmergencyAlert_gate
    [of "''T1''" "''Fire''" "''Evacuate''" cache0 "Inr ''A1''" user2] usr
  have rejected:
    "createEmergencyAlert (Some user2) ''T1'' ''Fire'' ''Evacuate'' (Inr ''A1'') cache0 =
       (Inl NotAuthorized, cache0)" by blast
  from createEmergencyAlert_gate
    [of "''T1''" "''Fire''" "''Evacuate''" cache0 "Inr ''A1''" admin9 "''A1''"] adm
  have "emergencyAlerts
     (snd (createEmergencyAlert (Some admin9) ''T1'' ''Fire'' ''Evacuate'' (Inr ''A1'') cache0)) =
     \<lparr>a_title = ''Fire'', a_message = ''Evacuate'', a_createdAt = ''T1'',
      a_createdBy = u_id admin9, a_id = ''A1''\<rparr> # emergencyAlerts cache0" by blast
  with rejected usr adm show ?thesis by (simp add: admin9_def cache0_def)
qed

section \<open>Refreshing\<close>

text \<open>
  C8: \<^verbatim>\<open>refreshNotifications\<close> sets \<^verbatim>\<open>loading\<close> when it starts and leaves both sequences
  alone while the two fetches are pending. If either fetch fails, both sequences are
  what they were before the call; if both succeed, both are replaced by the fetched
  collections. In every outcome \<^verbatim>\<open>loading\<close> is false afterwards.
\<close>

theorem refreshNotifications_all_or_nothing:
  "loading (refreshNotifications_issue w) = True \<and>
   notifications (refreshNotifications_issue w) = notifications w \<and>
   emergencyAlerts (refreshNotifications_issue w) = emergencyAlerts w \<and>
   notifications (refreshNotifications (Inl e) ra w) = notifications w \<and>
   emergencyAlerts (refreshNotifications (Inl e) ra w) = emergencyAlerts w \<and>
   notifications (refreshNotifications rn (Inl e) w) = notifications w \<and>
   emergencyAlerts (refreshNotifications rn (Inl e) w) = emergencyAlerts w \<and>
   notifications (refreshNotifications (Inr ns) (Inr as) w) = ns \<and>
   emergencyAlerts (refreshNotifications (Inr ns) (Inr as) w) = as \<and>
   loading (refreshNotifications rn ra w) = False"
  by (simp add: refresh_defs split: sum.splits)

section \<open>Following and unfollowing\<close>

text \<open>
  C3, evaluated at three inputs where the remote write of \<^verbatim>\<open>toggleFollow\<close> is not the set
  applied locally. U2 toggles the incident N1.
  \<^item> The callback holds a snapshot in which N1 is followed by U1 only, while the current
    state has U1 and U3 (a refresh arrived after the render). Locally U2 is added to
    U1, U3; the remote patch carries U1, U2, computed from the snapshot. This is so
    whether or not the updater has run.
  \<^item> The callback holds a snapshot that does not contain N1 yet. Locally U2 is added;
    line 136 returns and no remote write is issued.
  \<^item> The snapshot is current and U2 already follows N1, but the updater has not run when
    line 139 is reached. Locally U2 is removed; the remote patch adds U2 a second time.
\<close>

theorem toggleFollow_stale_snapshot_payload:
  "toggleFollow_issue (Some user2) [pothole] True ''N1''
      (cache0\<lparr>notifications := [pothole\<lparr>n_followedBy := [''U1'', ''U3'']\<rparr>]\<rparr>) =
     (True,
      cache0\<lparr>notifications := [pothole\<lparr>n_followedBy := [''U1'', ''U3'', ''U2'']\<rparr>],
             sent := [UpdateNotificationInDb ''N1''
                        (no_fields\<lparr>p_followedBy := Some [''U1'', ''U2'']\<rparr>)]\<rparr>) \<and>
   toggleFollow_issue (Some user2) [pothole] False ''N1''
      (cache0\<lparr>notifications := [pothole\<lparr>n_followedBy := [''U1'', ''U3'']\<rparr>]\<rparr>) =
     (True,
      cache0\<lparr>notifications := [pothole\<lparr>n_followedBy := [''U1'', ''U3'', ''U2'']\<rparr>],
             sent := [UpdateNotificationInDb ''N1''
                        (no_fields\<lparr>p_followedBy := Some [''U1'', ''U2'']\<rparr>)]\<rparr>) \<and>
   toggleFollow_issue (Some user2) [] True ''N1'' cache0 =
     (False, cache0\<lparr>notifications := [pothole\<lparr>n_followedBy := [''U1'', ''U2'']\<rparr>]\<rparr>) \<and>
   toggleFollow_issue (Some user2) [pothole\<lparr>n_followedBy := [''U1'', ''U2'']\<rparr>] False ''N1''
      (cache0\<lparr>notifications := [pothole\<lparr>n_followedBy := [''U1'', ''U2'']\<rparr>]\<rparr>) =
     (True,
      cache0\<lparr>notifications := [pothole\<lparr>n_followedBy := [''U1'']\<rparr>],
             sent := [UpdateNotificationInDb ''N1''
                        (no_fields\<lparr>p_followedBy := Some [''U1'', ''U2'', ''U2'']\<rparr>)]\<rparr>)"
  by (simp add: toggle_defs cache0_def pothole_def user2_def)

text \<open>
  Toggling twice when every call goes through a fresh callback. Let the incident be
  present, and let the same identity call \<^verbatim>\<open>toggleFollow\<close> on it twice, the second call
  made from a callback that has seen the state the first one left (the snapshot of each
  call is the state at that call). Then every record of the local sequence has its
  follower set back (as a set: a follower who unfollows and follows again moves to the
  end of the list) and no other field has changed, and each of the two calls has issued
  one remote write of its own for this incident, whatever the replies of the remote
  store and whether or not the updater had run.
\<close>

lemma toggleFollow_twice_current_snapshot:
  assumes present: "notificationId \<in> n_id ` set (notifications w)"
    and first: "w1 = toggleFollow (Some u) (notifications w) ran1 notificationId reply1 w"
    and second: "w2 = toggleFollow (Some u) (notifications w1) ran2 notificationId reply2 w1"
  shows "list_all2
           (\<lambda>n n'. set (n_followedBy n') = set (n_followedBy n) \<and>
                    n'\<lparr>n_followedBy := n_followedBy n\<rparr> = n)
           (notifications w) (notifications w2) \<and>
         (\<exists>f1 f2. filter is_write (sent w2) =
            filter is_write (sent w) @
              [UpdateNotificationInDb notificationId (no_fields\<lparr>p_followedBy := Some f1\<rparr>),
               UpdateNotificationInDb notificationId (no_fields\<lparr>p_followedBy := Some f2\<rparr>)])"
proof -
  have n1: "notifications w1 = map (toggled (u_id u) notificationId) (notifications w)"
    using first by (simp add: notifications_toggleFollow)
  have n2: "notifications w2 =
      map (toggled (u_id u) notificationId \<circ> toggled (u_id u) notificationId) (notifications w)"
    using second n1 by (simp add: notifications_toggleFollow)
  have restored: "list_all2
           (\<lambda>n n'. set (n_followedBy n') = set (n_followedBy n) \<and>
                    n'\<lparr>n_followedBy := n_followedBy n\<rparr> = n)
           (notifications w) (notifications w2)"
    unfolding n2
    by (simp add: list_all2_map2 list_all2_same toggled_twice_set toggled_twice_frame)
  have present1: "notificationId \<in> n_id ` set (notifications w1)"
    using present unfolding n1 by (simp add: image_image toggled_id)
  from writes_toggleFollow_present [OF present, of u ran1 reply1 w] first obtain f1 where
    s1: "filter is_write (sent w1) = filter is_write (sent w) @
           [UpdateNotificationInDb notificationId (no_fields\<lparr>p_followedBy := Some f1\<rparr>)]"
    by blast
  from writes_toggleFollow_present [OF present1, of u ran2 reply2 w1] second obtain f2 where
    s2: "filter is_write (sent w2) = filter is_write (sent w1) @
           [UpdateNotificationInDb notificationId (no_fields\<lparr>p_followedBy := Some f2\<rparr>)]"
    by blast
  from s1 s2 have "filter is_write (sent w2) =
            filter is_write (sent w) @
              [UpdateNotificationInDb notificationId (no_fields\<lparr>p_followedBy := Some f1\<rparr>),
               UpdateNotificationInDb notificationId (no_fields\<lparr>p_followedBy := Some f2\<rparr>)]"
    by simp
  with restored show ?thesis by blast
qed

text \<open>U2 follows and unfollows the incident N1 of the sample state.\<close>

lemma toggleFollow_twice_current_snapshot_example:
  "''N1'' \<in> n_id ` set (notifications cache0) \<and>
   list_all2
     (\<lambda>n n'. set (n_followedBy n') = set (n_followedBy n) \<and>
              n'\<lparr>n_followedBy := n_followedBy n\<rparr> = n)
     (notifications cache0)
     (notifications
        (toggleFollow (Some user2)
           (notifications
              (toggleFollow (Some user2) (notifications cache0) True ''N1'' (Inr ()) cache0))
           True ''N1'' (Inr ())
           (toggleFollow (Some user2) (notifications cache0) True ''N1'' (Inr ()) cache0))) \<and>
   (\<exists>f1 f2. filter is_write (sent
        (toggleFollow (Some user2)
           (notifications
              (toggleFollow (Some user2) (notifications cache0) True ''N1'' (Inr ()) cache0))
           True ''N1'' (Inr ())
           (toggleFollow (Some user2) (notifications cache0) True ''N1'' (Inr ()) cache0))) =
      filter is_write (sent cache0) @
        [UpdateNotificationInDb ''N1'' (no_fields\<lparr>p_followedBy := Some f1\<rparr>),
         UpdateNotificationInDb ''N1'' (no_fields\<lparr>p_followedBy := Some f2\<rparr>)])"
proof -
  have present: "''N1'' \<in> n_id ` set (notifications cache0)"
    by (simp add: cache0_def pothole_def)
  from toggleFollow_twice_current_snapshot
    [OF present refl refl, of user2 True "Inr ()" True "Inr ()"] present
  show ?thesis by blast
qed

text \<open>
  C6, evaluated where it fails. The incident N1 is in the local sequence, followed by U1.
  U2 calls \<^verbatim>\<open>toggleFollow\<close> on it twice through a callback whose closed-over array does not
  contain N1 (it was created at a render before N1 entered the state). Each call applies
  its change locally, so U2 is added and then removed and the follower list is back to
  U1; but line 135 finds nothing in the closed-over array, line 136 returns, and neither
  call issues a remote write: the list of remote calls is still empty. The same holds
  when the updater has not run by line 135.
\<close>

theorem toggleFollow_twice_stale_snapshot_no_write:
  "''N1'' \<in> n_id ` set (notifications cache0) \<and>
   sent cache0 = [] \<and>
   toggleFollow (Some user2) [] True ''N1'' (Inr ()) cache0 =
     cache0\<lparr>notifications := [pothole\<lparr>n_followedBy := [''U1'', ''U2'']\<rparr>]\<rparr> \<and>
   toggleFollow (Some user2) [] True ''N1'' (Inr ())
     (toggleFollow (Some user2) [] True ''N1'' (Inr ()) cache0) = cache0 \<and>
   toggleFollow (Some user2) [] False ''N1'' (Inr ())
     (toggleFollow (Some user2) [] False ''N1'' (Inr ()) cache0) = cache0 \<and>
   sent (toggleFollow (Some user2) [] True ''N1'' (Inr ())
           (toggleFollow (Some user2) [] True ''N1'' (Inr ()) cache0)) = []"
  by (simp add: toggle_defs cache0_def pothole_def user2_def)

text \<open>
  An id unknown to the callback altogether. For an id that is absent from the state and
  from the array the callback closed over, \<^verbatim>\<open>toggleFollow\<close> does nothing at all: the
  whole state is unchanged, so the local sequence is as before and no remote call has
  been issued. This holds for every identity, reply and updater timing.
\<close>

lemma toggleFollow_unknown_id_current_snapshot:
  "notificationId \<notin> n_id ` set snapshot \<Longrightarrow>
   notificationId \<notin> n_id ` set (notifications w) \<Longrightarrow>
   toggleFollow user snapshot updaterRan notificationId reply w = w"
  by (simp add: toggleFollow_def toggleFollow_issue_def toggle_updater_absent find_absent
      split: option.splits)

lemma toggleFollow_unknown_id_current_snapshot_example:
  "''N9'' \<notin> n_id ` set (notifications cache0) \<and>
   toggleFollow (Some user2) (notifications cache0) True ''N9'' (Inr ()) cache0 = cache0"
proof -
  have absent: "''N9'' \<notin> n_id ` set (notifications cache0)"
    by (simp add: cache0_def pothole_def)
  from toggleFollow_unknown_id_current_snapshot [OF absent absent] absent
  show ?thesis by simp
qed

text \<open>
  C7, evaluated where it fails. The local incident sequence is empty, so the id N1 is
  absent from it (the incident has been deleted, say), but the callback was created at
  a render that still showed N1, followed by U1. U2 calls \<^verbatim>\<open>toggleFollow\<close> on N1. The
  updater finds no record to change and the local sequence stays empty; line 135 finds
  N1 in the closed-over array, and line 143 issues a remote write that sets the
  followers of N1 to U1, U2. The same holds when the updater has not run by line 135.
  When that write is rejected, the handler also starts a refresh.
\<close>

theorem toggleFollow_unknown_id_stale_snapshot_write:
  "''N1'' \<notin> n_id ` set (notifications (cache0\<lparr>notifications := []\<rparr>)) \<and>
   toggleFollow (Some user2) [pothole] True ''N1'' (Inr ()) (cache0\<lparr>notifications := []\<rparr>) =
     cache0\<lparr>notifications := [],
            sent := [UpdateNotificationInDb ''N1''
                       (no_fields\<lparr>p_followedBy := Some [''U1'', ''U2'']\<rparr>)]\<rparr> \<and>
   toggleFollow (Some user2) [pothole] False ''N1'' (Inr ()) (cache0\<lparr>notifications := []\<rparr>) =
     cache0\<lparr>notifications := [],
            sent := [UpdateNotificationInDb ''N1''
                       (no_fields\<lparr>p_followedBy := Some [''U1'', ''U2'']\<rparr>)]\<rparr> \<and>
   toggleFollow (Some user2) [pothole] True ''N1'' (Inl (RemoteError ''not found''))
       (cache0\<lparr>notifications := []\<rparr>) =
     cache0\<lparr>notifications := [], loading := True,
            sent := [UpdateNotificationInDb ''N1''
                       (no_fields\<lparr>p_followedBy := Some [''U1'', ''U2'']\<rparr>),
                     FetchNotificationsFromDb, FetchEmergencyAlertsFromDb],
            console := [''Failed to toggle follow'']\<rparr>"
  by (simp add: toggle_defs cache0_def pothole_def user2_def)

text \<open>
  C10: the local apply of \<^verbatim>\<open>toggleFollow\<close> keeps the sequence position by position; a
  record with another id is unchanged, and on every record all fields but
  \<^verbatim>\<open>followedBy\<close> (id, type, title, description, location, photoUrl, status, createdBy,
  createdByName, createdAt, updatedAt) keep their values. Settling the remote write does
  not touch the sequence again.
\<close>

theorem toggleFollow_frame:
  "list_all2
     (\<lambda>n n'. (n_id n \<noteq> notificationId \<longrightarrow> n' = n) \<and>
        n_id n' = n_id n \<and> n_type n' = n_type n \<and> n_title n' = n_title n \<and>
        n_description n' = n_description n \<and> n_location n' = n_location n \<and>
        n_photoUrl n' = n_photoUrl n \<and> n_status n' = n_status n \<and>
        n_createdBy n' = n_createdBy n \<and> n_createdByName n' = n_createdByName n \<and>
        n_createdAt n' = n_createdAt n \<and> n_updatedAt n' = n_updatedAt n)
     (notifications w)
     (notifications (snd (toggleFollow_issue user snapshot updaterRan notificationId w))) \<and>
   notifications (toggleFollow user snapshot updaterRan notificationId reply w) =
     notifications (snd (toggleFollow_issue user snapshot updaterRan notificationId w))"
proof -
  have "list_all2
     (\<lambda>n n'. (n_id n \<noteq> notificationId \<longrightarrow> n' = n) \<and>
        n_id n' = n_id n \<and> n_type n' = n_type n \<and> n_title n' = n_title n \<and>
        n_description n' = n_description n \<and> n_location n' = n_location n \<and>
        n_photoUrl n' = n_photoUrl n \<and> n_status n' = n_status n \<and>
        n_createdBy n' = n_createdBy n \<and> n_createdByName n' = n_createdByName n \<and>
        n_createdAt n' = n_createdAt n \<and> n_updatedAt n' = n_updatedAt n)
     (notifications w)
     (notifications (snd (toggleFollow_issue user snapshot updaterRan notificationId w)))"
    by (cases user)
      (simp_all add: notifications_toggleFollow_issue list_all2_map2 list_all2_same toggled_def)
  then show ?thesis by (simp add: notifications_toggleFollow_settled)
qed

text \<open>U2 toggles N1 in a state that also holds the incident N2.\<close>

theorem toggleFollow_frame_witness:
  "n_id leak \<noteq> ''N1'' \<and> n_id pothole = ''N1'' \<and>
   list_all2
     (\<lambda>n n'. (n_id n \<noteq> ''N1'' \<longrightarrow> n' = n) \<and>
        n_id n' = n_id n \<and> n_type n' = n_type n \<and> n_title n' = n_title n \<and>
        n_description n' = n_description n \<and> n_location n' = n_location n \<and>
        n_photoUrl n' = n_photoUrl n \<and> n_status n' = n_status n \<and>
        n_createdBy n' = n_createdBy n \<and> n_createdByName n' = n_createdByName n \<and>
        n_createdAt n' = n_createdAt n \<and> n_updatedAt n' = n_updatedAt n)
     [pothole, leak]
     (notifications (snd (toggleFollow_issue (Some user2) [pothole, leak] True ''N1'' cache1)))"
proof -
  have ids: "n_id leak \<noteq> ''N1'' \<and> n_id pothole = ''N1''"
    by (simp add: leak_def pothole_def)
  have same: "notifications cache1 = [pothole, leak]"
    by (simp add: cache1_def)
  from toggleFollow_frame [of "''N1''" cache1 "Some user2" "[pothole, leak]" True] ids same
  show ?thesis by simp
qed

section \<open>The timestamp of a mutation\<close>

text \<open>
  C9, as stated, fails. After a successful \<^verbatim>\<open>toggleFollow\<close> of U2 on N1 the local record
  still has the timestamp T0 it had before, and the patch sent to the remote store has
  no \<^verbatim>\<open>updatedAt\<close> key at all. After a successful \<^verbatim>\<open>updateNotificationStatus\<close> whose two
  clock readings are T1 (line 75) and T2 (line 79), the remote store has been sent T1 and
  the local record holds T2.
\<close>

theorem updatedAt_alignment_counterexample:
  "map n_updatedAt (notifications cache0) = [''T0''] \<and>
   toggleFollow (Some user2) (notifications cache0) True ''N1'' (Inr ()) cache0 =
     cache0\<lparr>notifications := [pothole\<lparr>n_followedBy := [''U1'', ''U2'']\<rparr>],
            sent := [UpdateNotificationInDb ''N1''
                       (no_fields\<lparr>p_followedBy := Some [''U1'', ''U2'']\<rparr>)]\<rparr> \<and>
   n_updatedAt (pothole\<lparr>n_followedBy := [''U1'', ''U2'']\<rparr>) = ''T0'' \<and>
   p_updatedAt (no_fields\<lparr>p_followedBy := Some [''U1'', ''U2'']\<rparr>) = None \<and>
   updateNotificationStatus ''N1'' Resolved ''T1'' ''T2'' (Inr ()) cache0 =
     (Inr (),
      cache0\<lparr>notifications := [pothole\<lparr>n_status := Resolved, n_updatedAt := ''T2''\<rparr>],
             sent := [UpdateNotificationInDb ''N1''
                        (no_fields\<lparr>p_status := Some Resolved, p_updatedAt := Some ''T1''\<rparr>)]\<rparr>) \<and>
   ''T1'' \<noteq> ''T2''"
  by (simp add: toggle_defs mutation_defs cache0_def pothole_def user2_def no_fields_def)

text \<open>
  C9 (amended): for every successful \<^verbatim>\<open>updateFields\<close> the \<^verbatim>\<open>updatedAt\<close> written to the remote
  store and the \<^verbatim>\<open>updatedAt\<close> stored on the matching local records are one and the same
  timestamp, read once when the mutation is issued. For every successful \<^verbatim>\<open>updateStatus\<close>
  the \<^verbatim>\<open>updatedAt\<close> written to the remote store is the time read when the mutation is
  issued. \<^verbatim>\<open>toggleFollow\<close> does not refresh \<^verbatim>\<open>updatedAt\<close>: every local record keeps its
  timestamp, and the one remote write it may issue is a patch of \<^verbatim>\<open>followedBy\<close> alone,
  without an \<^verbatim>\<open>updatedAt\<close> key.
\<close>

theorem updatedAt_written_by_mutations:
  "sent (snd (updateNotification ident updates now (Inr ()) w)) =
     sent w @ [UpdateNotificationInDb ident (updates\<lparr>p_updatedAt := Some now\<rparr>)] \<and>
   p_updatedAt (updates\<lparr>p_updatedAt := Some now\<rparr>) = Some now \<and>
   map n_updatedAt (notifications (snd (updateNotification ident updates now (Inr ()) w))) =
     map (\<lambda>n. if n_id n = ident then now else n_updatedAt n) (notifications w) \<and>
   sent (snd (updateNotificationStatus ident status now later (Inr ()) w)) =
     sent w @ [UpdateNotificationInDb ident
                 (no_fields\<lparr>p_status := Some status, p_updatedAt := Some now\<rparr>)] \<and>
   map n_updatedAt
     (notifications (toggleFollow user snapshot updaterRan notificationId reply w)) =
     map n_updatedAt (notifications w) \<and>
   (filter is_write (sent (toggleFollow user snapshot updaterRan notificationId reply w)) =
      filter is_write (sent w) \<or>
    (\<exists>fs. filter is_write
             (sent (toggleFollow user snapshot updaterRan notificationId reply w)) =
       filter is_write (sent w) @
         [UpdateNotificationInDb notificationId (no_fields\<lparr>p_followedBy := Some fs\<rparr>)])) \<and>
   p_updatedAt (no_fields\<lparr>p_followedBy := Some fs'\<rparr>) = None"
proof -
  have upd:
    "map n_updatedAt (notifications (snd (updateNotification ident updates now (Inr ()) w))) =
     map (\<lambda>n. if n_id n = ident then now else n_updatedAt n) (notifications w)"
    by (simp add: mutation_defs Let_def)
  have tog:
    "map n_updatedAt
       (notifications (toggleFollow user snapshot updaterRan notificationId reply w)) =
     map n_updatedAt (notifications w)"
    by (cases user) (simp_all add: notifications_toggleFollow toggled_def)
  have writes:
    "filter is_write (sent (toggleFollow user snapshot updaterRan notificationId reply w)) =
      filter is_write (sent w) \<or>
    (\<exists>fs. filter is_write
             (sent (toggleFollow user snapshot updaterRan notificationId reply w)) =
       filter is_write (sent w) @
         [UpdateNotificationInDb notificationId (no_fields\<lparr>p_followedBy := Some fs\<rparr>)])"
  proof (cases user)
    case None
    then show ?thesis by (simp add: toggle_defs)
  next
    case (Some u)
    show ?thesis
    proof (cases "notificationId \<in> n_id ` set snapshot")
      case True
      from writes_toggleFollow_present [OF this] Some show ?thesis by blast
    next
      case False
      then have "find (\<lambda>n. n_id n = notificationId) snapshot = None" by (rule find_absent)
      with Some show ?thesis
        by (simp add: toggleFollow_def toggleFollow_issue_def Let_def split: prod.splits)
    qed
  qed
  from upd tog writes show ?thesis
    by (simp add: mutation_defs Let_def no_fields_def)
qed

end
